theory Spec2Isabelle
  imports Complex_Main "HOL-Library.Multiset"
begin

section \<open>Numbers and their rendering\<close>

text \<open>
  The dashboards receive their numbers from JSON responses, so every number a component
  sees is finite. A JavaScript number is modelled as a \<^typ>\<open>real\<close>, arithmetic as exact
  arithmetic, and \<open>null\<close>/\<open>undefined\<close> as \<^const>\<open>None\<close> of an option type (the tests
  \<open>== null\<close>, \<open>!= null\<close>, \<open>??\<close> and \<open>?.\<close> of the source do not tell the two apart).
  The thresholds the components compare with (6.0, 6.5, 8.5, 9.0) are binary fractions,
  so these comparisons are the same on doubles and on reals.
\<close>

definition digit_char :: "nat \<Rightarrow> char" where
  "digit_char d = ''0123456789'' ! d"

fun decimal :: "nat \<Rightarrow> string" where
  "decimal n = (if n < 10 then [digit_char n] else decimal (n div 10) @ [digit_char (n mod 10)])"

declare decimal.simps [simp del]

text \<open>
  \<open>Number.prototype.toFixed(f)\<close> for a finite number, after ECMA-262: the sign is split
  off; a magnitude of at least \<open>10^21\<close> is rendered by \<open>ToString\<close> (not modelled, taken
  as the parameter \<open>ToString\<close>); otherwise \<open>n\<close> is the integer nearest to
  \<open>x * 10^f\<close> (the larger one on a tie), its decimal digits are padded with zeros to at
  least \<open>f + 1\<close> characters and the point is put before the last \<open>f\<close> of them.
\<close>

definition toFixed :: "(real \<Rightarrow> string) \<Rightarrow> nat \<Rightarrow> real \<Rightarrow> string" where
  "toFixed ToString f x0 =
     (let s = (if x0 < 0 then ''-'' else '''');
          x = (if x0 < 0 then - x0 else x0)
      in if 10 ^ 21 \<le> x then s @ ToString x
         else
           (let n = nat \<lfloor>x * 10 ^ f + 1 / 2\<rfloor>;
                m = decimal n;
                m = (if f \<noteq> 0
                     then (let m = (if length m \<le> f
                                    then replicate (f + 1 - length m) (CHR ''0'') @ m
                                    else m);
                               k = length m
                           in take (k - f) m @ ''.'' @ drop (k - f) m)
                     else m)
            in s @ m))"

section \<open>Industrial dashboard: pH compliance\<close>

text \<open>
  One telemetry reading as the API returns it; every field may be missing. Urban and
  industrial readings carry the first five fields, rural readings the last three.
\<close>

record telemetry =
  flow_rate :: "real option"
  pressure :: "real option"
  ph_level :: "real option"
  temperature :: "real option"
  turbidity :: "real option"
  aquifer_depth_m :: "real option"
  water_table_m :: "real option"
  recharge_rate :: "real option"

definition no_telemetry :: telemetry where
  "no_telemetry =
     \<lparr>flow_rate = None, pressure = None, ph_level = None, temperature = None, turbidity = None,
      aquifer_depth_m = None, water_table_m = None, recharge_rate = None\<rparr>"

record facility =
  name :: string
  latest_telemetry :: "telemetry option"

record violation =
  parameter :: string
  measured :: string
  limit :: string
  status :: string

text \<open>\<open>getPhStatus\<close> of the industrial dashboard; the four results are the source's strings.\<close>

definition getPhStatus :: "real option \<Rightarrow> string" where
  "getPhStatus phLevel =
     (case phLevel of
        None \<Rightarrow> ''unknown''
      | Some ph \<Rightarrow>
          if ph < 6.0 \<or> ph > 9.0 then ''critical''
          else if ph < 6.5 \<or> ph > 8.5 then ''warning''
          else ''normal'')"

text \<open>
  \<open>buildViolations\<close>: \<open>facility.latest_telemetry?.ph_level ?? null\<close> reads the pH of the
  latest telemetry, and is \<open>null\<close> when the facility has no telemetry or the telemetry no pH.
\<close>

definition buildViolations :: "(real \<Rightarrow> string) \<Rightarrow> facility \<Rightarrow> violation list" where
  "buildViolations ToString fac =
     (let phLevel = (case latest_telemetry fac of None \<Rightarrow> None | Some t \<Rightarrow> ph_level t);
          status = getPhStatus phLevel
      in [\<lparr>parameter = ''pH'',
           measured = (case phLevel of Some ph \<Rightarrow> toFixed ToString 2 ph | None \<Rightarrow> ''N/A''),
           limit = ''6.5-8.5'',
           status = status\<rparr>])"

section \<open>Alerts feed: ordering of the alerts\<close>

text \<open>
  An alert of \<open>/api/alerts\<close>. The field \<open>timestamp\<close> holds the value of
  \<open>new Date(alert.timestamp)\<close>, the milliseconds since the epoch, for a timestamp that
  parses as a date.
\<close>

record alert =
  alert_id :: nat
  severity :: string
  title :: string
  timestamp :: int

text \<open>
  \<open>Array.prototype.sort(comparefn)\<close>: ECMA-262 requires a stable sort, and leaves the
  method open. Modelled as the stable insertion sort: an element goes before the first
  element that it does not compare greater than, and the elements are inserted from the
  last to the first.
\<close>

fun insert_by :: "('a \<Rightarrow> 'a \<Rightarrow> int) \<Rightarrow> 'a \<Rightarrow> 'a list \<Rightarrow> 'a list" where
  "insert_by comparefn x [] = [x]"
| "insert_by comparefn x (y # ys) =
     (if comparefn x y \<le> 0 then x # y # ys else y # insert_by comparefn x ys)"

definition Array_sort :: "('a \<Rightarrow> 'a \<Rightarrow> int) \<Rightarrow> 'a list \<Rightarrow> 'a list" where
  "Array_sort comparefn xs = foldr (insert_by comparefn) xs []"

text \<open>
  \<open>sortedAlerts\<close> of \<open>fetchData\<close>:
  \<open>(alertsRes.data.alerts || []).sort((a, b) => new Date(b.timestamp) - new Date(a.timestamp))\<close>.
\<close>

definition sortedAlerts :: "alert list option \<Rightarrow> alert list" where
  "sortedAlerts alerts =
     Array_sort (\<lambda>a b. timestamp b - timestamp a) (case alerts of None \<Rightarrow> [] | Some xs \<Rightarrow> xs)"

section \<open>Rural dashboard: the selected station\<close>

record station = facility +
  station_aquifer_depth_m :: "real option"
  station_water_table_m :: "real option"

record rural_stats =
  stations :: "station list option"
  avg_aquifer_depth_m :: "real option"
  avg_recharge_rate :: "real option"

text \<open>The operator \<open>??\<close>: the right operand when the left one is \<open>null\<close> or \<open>undefined\<close>.\<close>

definition nullish :: "'a option \<Rightarrow> 'a option \<Rightarrow> 'a option" where
  "nullish a b = (case a of None \<Rightarrow> b | Some v \<Rightarrow> Some v)"

text \<open>
  \<open>selectedStation\<close> is \<open>null\<close> or a station name; the empty name is falsy as \<open>null\<close> is.
  \<open>stats.stations?.find(...)\<close> is the first station of that name, if any.
\<close>

definition selectedStationData :: "rural_stats \<Rightarrow> string option \<Rightarrow> station option" where
  "selectedStationData stats selectedStation =
     (case selectedStation of
        None \<Rightarrow> None
      | Some s \<Rightarrow>
          if s = [] then None
          else (case stations stats of
                  None \<Rightarrow> None
                | Some sts \<Rightarrow> find (\<lambda>station. name station = s) sts))"

definition selectedTelemetry :: "rural_stats \<Rightarrow> string option \<Rightarrow> telemetry option" where
  "selectedTelemetry stats selectedStation =
     (case selectedStationData stats selectedStation of
        None \<Rightarrow> None
      | Some station \<Rightarrow> latest_telemetry station)"

definition selectedAquiferDepth :: "rural_stats \<Rightarrow> string option \<Rightarrow> real" where
  "selectedAquiferDepth stats selectedStation =
     (case nullish (Option.bind (selectedTelemetry stats selectedStation) aquifer_depth_m)
            (nullish (Option.bind (selectedStationData stats selectedStation) station_aquifer_depth_m)
               (nullish (avg_aquifer_depth_m stats) (Some 0))) of
        Some d \<Rightarrow> d
      | None \<Rightarrow> 0)"

text \<open>
  \<open>selectedAquiferDepth ? selectedAquiferDepth * 0.25 : null\<close>: a number is falsy when it
  is zero.
\<close>

definition selectedWaterTableDepth :: "rural_stats \<Rightarrow> string option \<Rightarrow> real option" where
  "selectedWaterTableDepth stats selectedStation =
     nullish (Option.bind (selectedTelemetry stats selectedStation) water_table_m)
       (nullish (Option.bind (selectedStationData stats selectedStation) station_water_table_m)
          (if selectedAquiferDepth stats selectedStation \<noteq> 0
           then Some (selectedAquiferDepth stats selectedStation * 0.25)
           else None))"

text \<open>
  The averages of the selected station, over the twelve monthly points of
  \<open>getStationData\<close>: \<open>depthData.map((d) => d.depth).filter((v) => v != null)\<close>, then the
  sum by \<open>reduce\<close> over the number of values, or \<open>null\<close> when there is none.
\<close>

record depth_point =
  month :: string
  depth :: "real option"

record recharge_point =
  recharge_month :: string
  recharge :: "real option"

definition depthValues :: "depth_point list \<Rightarrow> real list" where
  "depthValues depthData = map the (filter (\<lambda>v. v \<noteq> None) (map depth depthData))"

definition rechargeValues :: "recharge_point list \<Rightarrow> real list" where
  "rechargeValues rechargeData = map the (filter (\<lambda>v. v \<noteq> None) (map recharge rechargeData))"

definition avgDepthSelected :: "depth_point list \<Rightarrow> real option" where
  "avgDepthSelected depthData =
     (if length (depthValues depthData) > 0
      then Some (foldl (\<lambda>sum v. sum + v) 0 (depthValues depthData)
                   / real (length (depthValues depthData)))
      else None)"

definition avgRechargeSelected :: "recharge_point list \<Rightarrow> real option" where
  "avgRechargeSelected rechargeData =
     (if length (rechargeValues rechargeData) > 0
      then Some (foldl (\<lambda>sum v. sum + v) 0 (rechargeValues rechargeData)
                   / real (length (rechargeValues rechargeData)))
      else None)"

text \<open>
  The trend rows the dashboard works with: \<open>stats.depth_trends\<close> and
  \<open>stats.recharge_trends\<close> when the API sends depth trends, flat generated series
  otherwise. A row names its month and its station. The recharge rows are \<open>undefined\<close>
  (\<^const>\<open>None\<close>) when the API sends depth trends without recharge trends.
\<close>

record depth_trend =
  trend_month :: string
  trend_station :: string
  trend_depth :: "real option"

record recharge_trend =
  recharge_trend_month :: string
  recharge_trend_station :: string
  trend_recharge :: "real option"

definition months :: "string list" where
  "months = [''Jan'', ''Feb'', ''Mar'', ''Apr'', ''May'', ''Jun'',
             ''Jul'', ''Aug'', ''Sep'', ''Oct'', ''Nov'', ''Dec'']"

text \<open>
  \<open>getStationData\<close>: the rows of the selected station are collected into a table by
  month (\<open>acc[d.month] = d.depth\<close>, so a later row of a month replaces an earlier one), and
  a value that is \<open>null\<close> counts as no value.
\<close>

definition depthByMonthMap :: "depth_trend list \<Rightarrow> string \<Rightarrow> string \<Rightarrow> real option" where
  "depthByMonthMap depthTrendData selectedStation =
     foldl (\<lambda>acc d. acc(trend_month d := trend_depth d)) (\<lambda>month. None)
       (filter (\<lambda>d. trend_station d = selectedStation) depthTrendData)"

definition rechargeByMonthMap :: "recharge_trend list \<Rightarrow> string \<Rightarrow> string \<Rightarrow> real option" where
  "rechargeByMonthMap rechargeTrendData selectedStation =
     foldl (\<lambda>acc d. acc(recharge_trend_month d := trend_recharge d)) (\<lambda>month. None)
       (filter (\<lambda>d. recharge_trend_station d = selectedStation) rechargeTrendData)"

text \<open>
  Then \<open>months.map\<close> builds one point per month: the month's value when the table has
  one, which also becomes the last value seen, and otherwise the last value seen.
\<close>

fun carry_forward ::
    "(string \<Rightarrow> real \<Rightarrow> 'p) \<Rightarrow> (string \<Rightarrow> real option) \<Rightarrow> real \<Rightarrow> string list \<Rightarrow> 'p list" where
  "carry_forward point byMonth lastValue [] = []"
| "carry_forward point byMonth lastValue (m # ms) =
     (case byMonth m of
        Some v \<Rightarrow> point m v # carry_forward point byMonth v ms
      | None \<Rightarrow> point m lastValue # carry_forward point byMonth lastValue ms)"

text \<open>
  Without a selected station \<open>getStationData\<close> returns no points. The last value seen
  is at first \<open>selectedWaterTableDepth || 0\<close> for the depth and
  \<open>stats.avg_recharge_rate || 0\<close> for the recharge.
\<close>

definition getStationData ::
    "rural_stats \<Rightarrow> depth_trend list \<Rightarrow> recharge_trend list \<Rightarrow> string option \<Rightarrow>
       depth_point list \<times> recharge_point list" where
  "getStationData stats depthTrendData rechargeTrendData selectedStation =
     (case selectedStation of
        None \<Rightarrow> ([], [])
      | Some s \<Rightarrow>
          if s = [] then ([], [])
          else
            (let defaultDepth =
                   (case selectedWaterTableDepth stats selectedStation of None \<Rightarrow> 0 | Some d \<Rightarrow> d);
                 defaultRecharge = (case avg_recharge_rate stats of None \<Rightarrow> 0 | Some r \<Rightarrow> r)
             in (carry_forward (\<lambda>m v. \<lparr>month = m, depth = Some v\<rparr>)
                   (depthByMonthMap depthTrendData s) defaultDepth months,
                 carry_forward (\<lambda>m v. \<lparr>recharge_month = m, recharge = Some v\<rparr>)
                   (rechargeByMonthMap rechargeTrendData s) defaultRecharge months)))"

text \<open>
  The two means the dashboard displays, \<open>displayWaterTableDepth\<close> and
  \<open>displayRechargeRate\<close>: the means of the points of \<open>getStationData\<close> when a station is
  selected, \<open>null\<close> otherwise. Before that, the component reads
  \<open>rechargeTrendData.filter\<close> for its monthly chart, which throws a \<open>TypeError\<close> when the
  recharge rows are \<open>undefined\<close>.
\<close>

datatype js_error = TypeError

definition displayAverages ::
    "rural_stats \<Rightarrow> depth_trend list \<Rightarrow> recharge_trend list option \<Rightarrow> string option \<Rightarrow>
       js_error + real option \<times> real option" where
  "displayAverages stats depthTrendData rechargeTrendData selectedStation =
     (case rechargeTrendData of
        None \<Rightarrow> Inl TypeError
      | Some rows \<Rightarrow>
          (let (depthData, rechargeData) = getStationData stats depthTrendData rows selectedStation;
               selected = (selectedStation \<noteq> None \<and> selectedStation \<noteq> Some [])
           in Inr (if selected then avgDepthSelected depthData else None,
                   if selected then avgRechargeSelected rechargeData else None)))"

text \<open>
  For the statements about the points: the value a month shows is the last value that
  the table holds among the months up to it, or the fallback when it holds none.
\<close>

definition last_seen :: "(string \<Rightarrow> real option) \<Rightarrow> real \<Rightarrow> string list \<Rightarrow> real" where
  "last_seen byMonth fallback ms =
     (if List.map_filter byMonth ms = [] then fallback else last (List.map_filter byMonth ms))"

section \<open>Map view: centring on the filtered nodes\<close>

record node =
  node_id :: nat
  context_mode :: string
  latitude :: real
  longitude :: real

record map_view =
  center :: "real \<times> real"
  zoom :: nat

definition filteredNodes :: "string \<Rightarrow> node list \<Rightarrow> node list" where
  "filteredNodes contextFilter nodes =
     (if contextFilter = ''all'' then nodes
      else filter (\<lambda>node. context_mode node = contextFilter) nodes)"

text \<open>
  The body of the centring effect, from the view before to the view after:
  \<open>setCenter\<close> and \<open>setZoom\<close> run only when some node passes the filter.
\<close>

definition autoCenter :: "string \<Rightarrow> node list \<Rightarrow> map_view \<Rightarrow> map_view" where
  "autoCenter contextFilter nodes view =
     (let fs = filteredNodes contextFilter nodes in
      if length fs > 0
      then (let avgLat = foldl (\<lambda>sum n. sum + latitude n) 0 fs / real (length fs);
                avgLng = foldl (\<lambda>sum n. sum + longitude n) 0 fs / real (length fs)
            in view\<lparr>center := (avgLat, avgLng), zoom := (if length fs = 1 then 13 else 11)\<rparr>)
      else view)"

section \<open>Mobile application: distance to a report\<close>

text \<open>
  \<open>Math.sqrt\<close> of a negative number is \<open>NaN\<close>, written \<^const>\<open>None\<close>; \<open>NaN\<close> passes
  through \<open>Math.atan2\<close> and the products, and \<open>toFixed\<close> renders it as \<open>NaN\<close>.
  \<open>Math.atan2 y x\<close> is the angle of the point \<open>(x, y)\<close>, in \<open>(-\<pi>, \<pi>]\<close>.
\<close>

definition Math_sqrt :: "real \<Rightarrow> real option" where
  "Math_sqrt x = (if x < 0 then None else Some (sqrt x))"

definition Math_atan2 :: "real \<Rightarrow> real \<Rightarrow> real" where
  "Math_atan2 y x =
     (if 0 < x then arctan (y / x)
      else if x < 0 then (if 0 \<le> y then arctan (y / x) + pi else arctan (y / x) - pi)
      else if 0 < y then pi / 2
      else if y < 0 then - (pi / 2)
      else 0)"

definition calculateDistance ::
    "(real \<Rightarrow> string) \<Rightarrow> real \<Rightarrow> real \<Rightarrow> real \<Rightarrow> real \<Rightarrow> string" where
  "calculateDistance ToString lat1 lng1 lat2 lng2 =
     (let R = 6371;
          dLat = ((lat2 - lat1) * pi) / 180;
          dLng = ((lng2 - lng1) * pi) / 180;
          a = sin (dLat / 2) * sin (dLat / 2) +
              cos ((lat1 * pi) / 180) * cos ((lat2 * pi) / 180) *
                sin (dLng / 2) * sin (dLng / 2)
      in case (Math_sqrt a, Math_sqrt (1 - a)) of
           (Some y, Some x) \<Rightarrow> toFixed ToString 2 (R * (2 * Math_atan2 y x))
         | _ \<Rightarrow> ''NaN'')"

section \<open>Status classifier of the backend\<close>

text \<open>
  The backend that classifies nodes and the simulator that feeds it are Python programs
  whose code is not among the sources; the dashboards only display their results. The
  definitions of this section and the next follow the specification's sections 4.3, 4.4,
  6 and 7.
\<close>

text \<open>Modelled from the spec: the node categories of the data model (section 3).\<close>

datatype category = Urban | Industrial | Rural

text \<open>Modelled from the spec: the enumerated status values (section 3).\<close>

datatype StatusValue = Normal | Warning | Critical | Offline

text \<open>
  Modelled from the spec: a threshold test on one field of the backend's classifier; a
  field without a value breaches nothing.
\<close>

definition breach :: "(real \<Rightarrow> bool) \<Rightarrow> real option \<Rightarrow> bool" where
  "breach P field = (case field of None \<Rightarrow> False | Some v \<Rightarrow> P v)"

text \<open>
  Modelled from the spec: the hard-critical breaches of the backend's classifier (section
  4.4, rule 2): pH outside [6.0, 9.0] in any context whose reading has a pH, pressure
  below 30 for an urban node, a depth beyond the drought threshold for a rural node. The
  specification leaves the drought threshold open; it is the parameter \<open>drought\<close>.
\<close>

definition hard_critical :: "real \<Rightarrow> category \<Rightarrow> telemetry \<Rightarrow> bool" where
  "hard_critical drought c r =
     (breach (\<lambda>ph. ph < 6.0 \<or> 9.0 < ph) (ph_level r) \<or>
      (case c of
         Urban \<Rightarrow> breach (\<lambda>p. p < 30) (pressure r)
       | Industrial \<Rightarrow> False
       | Rural \<Rightarrow> breach (\<lambda>d. drought < d) (aquifer_depth_m r) \<or>
                  breach (\<lambda>d. drought < d) (water_table_m r)))"

text \<open>
  Modelled from the spec: the soft breaches of the backend's classifier (section 4.4, rule
  3): pH outside [6.5, 8.5], pressure within [30, 40) for an urban node.
\<close>

definition soft_breach :: "category \<Rightarrow> telemetry \<Rightarrow> bool" where
  "soft_breach c r =
     (breach (\<lambda>ph. ph < 6.5 \<or> 8.5 < ph) (ph_level r) \<or>
      (case c of
         Urban \<Rightarrow> breach (\<lambda>p. 30 \<le> p \<and> p < 40) (pressure r)
       | Industrial \<Rightarrow> False
       | Rural \<Rightarrow> False))"

text \<open>
  Modelled from the spec: \<open>classify(category, reading)\<close> of the backend (section 4.4), the
  four rules in their order, the first match winning: no reading is \<open>offline\<close>, a
  hard-critical breach is \<open>critical\<close>, a soft breach is \<open>warning\<close>, anything else is
  \<open>normal\<close>. Section 7 adds that a malformed reading (one missing a required field) is
  \<open>offline\<close> and never an exception. The specification neither names the required fields
  nor places that fallback among the four rules: which readings are malformed is the
  parameter \<open>malformed\<close>, and the fallback replaces \<open>normal\<close> only, so that the rules of
  section 4.4 keep their precedence (in Scenario A a reading given by its pressure alone
  is \<open>critical\<close>).
\<close>

definition classify ::
    "(category \<Rightarrow> telemetry \<Rightarrow> bool) \<Rightarrow> real \<Rightarrow> category \<Rightarrow> telemetry option \<Rightarrow> StatusValue" where
  "classify malformed drought c reading =
     (case reading of
        None \<Rightarrow> Offline
      | Some r \<Rightarrow>
          if hard_critical drought c r then Critical
          else if soft_breach c r then Warning
          else if malformed c r then Offline
          else Normal)"

section \<open>Simulation scheduler\<close>

text \<open>
  Modelled from the spec: the command-line configuration of the simulator's scheduler
  (section 6): each setting is given or not.
\<close>

record invocation =
  interval_arg :: "nat option"
  cycles_arg :: "nat option"
  url_arg :: string

text \<open>
  Modelled from the spec: the configuration the scheduler runs with; no cycle count
  (\<^const>\<open>None\<close>) is the unbounded run.
\<close>

record config =
  interval_seconds :: nat
  cycles :: "nat option"
  endpoint :: string

text \<open>
  Modelled from the spec: the defaults of the scheduler's invocation (section 6): an
  interval of 2 seconds, an unbounded cycle count.
\<close>

definition configure :: "invocation \<Rightarrow> config" where
  "configure args =
     \<lparr>interval_seconds = (case interval_arg args of None \<Rightarrow> 2 | Some i \<Rightarrow> i),
      cycles = cycles_arg args,
      endpoint = url_arg args\<rparr>"

text \<open>Modelled from the spec: the states of the scheduler's state machine (section 4.3).\<close>

datatype phase = Idle | Running | Stopped | Completed

text \<open>Modelled from the spec: the summary the scheduler logs for one cycle.\<close>

record cycle_summary =
  submitted :: nat
  failed :: nat

text \<open>
  Modelled from the spec: one call of the ingestion sink's \<open>submit(reading)\<close> (section
  6), with the tick and the node it was made for and its outcome.
\<close>

record submission =
  sub_tick :: nat
  sub_node :: nat
  sub_reading :: telemetry
  accepted :: bool

text \<open>
  Modelled from the spec: what the scheduler does not control: the generator's draw for a
  node at a tick, the sink's answer to a submission (a rejection or a timeout is
  \<^const>\<open>False\<close>), and whether the external stop signal has arrived when a tick
  completes.
\<close>

record world =
  generate :: "node \<Rightarrow> nat \<Rightarrow> telemetry"
  submit :: "nat \<Rightarrow> nat \<Rightarrow> telemetry \<Rightarrow> bool"
  stop_requested :: "nat \<Rightarrow> bool"

text \<open>
  Modelled from the spec: the scheduler's state: its phase, the number of ticks done, the
  time slept, the cycle summaries logged, and the calls made to the sink so far. It holds
  no reading.
\<close>

record scheduler =
  phase :: phase
  tick_no :: nat
  slept_seconds :: nat
  summaries :: "cycle_summary list"
  submissions :: "submission list"

text \<open>
  Modelled from the spec: one tick of the scheduler (section 4.3): one reading is
  generated per node and submitted once; the outcome is collected per node.
\<close>

definition tick :: "world \<Rightarrow> node list \<Rightarrow> nat \<Rightarrow> submission list" where
  "tick w nodes t =
     map (\<lambda>n. \<lparr>sub_tick = t, sub_node = node_id n, sub_reading = generate w n t,
               accepted = submit w t (node_id n) (generate w n t)\<rparr>) nodes"

text \<open>Modelled from the spec: the cycle summary: submitted count and failed count.\<close>

definition summarize :: "submission list \<Rightarrow> cycle_summary" where
  "summarize subs =
     \<lparr>submitted = length (filter accepted subs),
      failed = length (filter (\<lambda>s. \<not> accepted s) subs)\<rparr>"

text \<open>Modelled from the spec: the scheduler before \<open>run\<close> is called.\<close>

definition start :: scheduler where
  "start = \<lparr>phase = Idle, tick_no = 0, slept_seconds = 0, summaries = [], submissions = []\<rparr>"

text \<open>Modelled from the spec: whether a bounded run has done its cycles.\<close>

definition cycles_done :: "config \<Rightarrow> nat \<Rightarrow> bool" where
  "cycles_done cfg t = (case cycles cfg of None \<Rightarrow> False | Some c \<Rightarrow> c \<le> t)"

text \<open>
  Modelled from the spec: one transition of the scheduler's state machine (section 4.3).
  A running scheduler that has done its cycles completes; otherwise it runs one tick,
  logs the summary, and then either stops, when the stop signal has arrived during the
  tick, or sleeps the configured interval.
\<close>

definition step :: "config \<Rightarrow> world \<Rightarrow> node list \<Rightarrow> scheduler \<Rightarrow> scheduler" where
  "step cfg w nodes s =
     (case phase s of
        Idle \<Rightarrow> s\<lparr>phase := Running\<rparr>
      | Running \<Rightarrow>
          if cycles_done cfg (tick_no s) then s\<lparr>phase := Completed\<rparr>
          else
            (let subs = tick w nodes (tick_no s);
                 s' = s\<lparr>tick_no := tick_no s + 1,
                        summaries := summaries s @ [summarize subs],
                        submissions := submissions s @ subs\<rparr>
             in if stop_requested w (tick_no s) then s'\<lparr>phase := Stopped\<rparr>
                else s'\<lparr>slept_seconds := slept_seconds s + interval_seconds cfg\<rparr>)
      | Stopped \<Rightarrow> s
      | Completed \<Rightarrow> s)"

text \<open>
  Modelled from the spec: the scheduler after \<open>k\<close> transitions of \<open>run(nodes, interval,
  cycles)\<close>. An unbounded run never ends by itself, so the run is observed after any
  number of transitions.
\<close>

definition run :: "config \<Rightarrow> world \<Rightarrow> node list \<Rightarrow> nat \<Rightarrow> scheduler" where
  "run cfg w nodes k = (step cfg w nodes ^^ k) start"

section \<open>Properties of the pH classifier\<close>

text \<open>
  C1. A reading that has a pH value is classified \<open>critical\<close> when the pH is outside
  [6.0, 9.0], \<open>warning\<close> when it is outside [6.5, 8.5] but inside [6.0, 9.0], and
  \<open>normal\<close> otherwise; an industrial facility whose latest pH is 11.0 gets the status
  \<open>critical\<close>.
\<close>

theorem getPhStatus_bands:
  "(ph \<notin> {6 .. 9} \<longrightarrow> getPhStatus (Some ph) = ''critical'') \<and>
   (ph \<in> {6 .. 9} \<and> ph \<notin> {6.5 .. 8.5} \<longrightarrow> getPhStatus (Some ph) = ''warning'') \<and>
   (ph \<in> {6.5 .. 8.5} \<longrightarrow> getPhStatus (Some ph) = ''normal'') \<and>
   map status (buildViolations ToString
      \<lparr>name = nm, latest_telemetry = Some (t\<lparr>ph_level := Some 11.0\<rparr>)\<rparr>) = [''critical'']"
  by (auto simp: getPhStatus_def buildViolations_def)

theorem getPhStatus_bands_witness:
  "(5::real) \<notin> {6 .. 9} \<and> getPhStatus (Some 5) = ''critical'' \<and>
   (6.2::real) \<in> {6 .. 9} \<and> (6.2::real) \<notin> {6.5 .. 8.5} \<and> getPhStatus (Some 6.2) = ''warning'' \<and>
   (7::real) \<in> {6.5 .. 8.5} \<and> getPhStatus (Some 7) = ''normal''"
  using getPhStatus_bands [of 5] getPhStatus_bands [of "6.2"] getPhStatus_bands [of 7]
  by simp

text \<open>
  C2 (as the code has it). A reading whose pH is missing (no latest telemetry, or a telemetry
  without \<open>ph_level\<close>) is never classified \<open>offline\<close>: the guard of \<open>getPhStatus\<close>
  returns the fifth value \<open>unknown\<close>, without throwing, and the violation row shows
  \<open>N/A\<close>; \<open>offline\<close> is not a result of \<open>getPhStatus\<close> at all.
\<close>

theorem getPhStatus_missing_unknown:
  "getPhStatus None = ''unknown'' \<and>
   (\<forall>ph. getPhStatus ph \<noteq> ''offline'') \<and>
   ((case latest_telemetry fac of None \<Rightarrow> None | Some t \<Rightarrow> ph_level t) = None \<longrightarrow>
      buildViolations ToString fac =
        [\<lparr>parameter = ''pH'', measured = ''N/A'', limit = ''6.5-8.5'', status = ''unknown''\<rparr>])"
  by (auto simp: getPhStatus_def buildViolations_def split: option.splits)

theorem getPhStatus_missing_unknown_witness:
  "buildViolations (\<lambda>x. []) \<lparr>name = ''Plant A'', latest_telemetry = None\<rparr> =
     [\<lparr>parameter = ''pH'', measured = ''N/A'', limit = ''6.5-8.5'', status = ''unknown''\<rparr>] \<and>
   buildViolations (\<lambda>x. []) \<lparr>name = ''Plant B'', latest_telemetry =
       Some no_telemetry\<rparr> =
     [\<lparr>parameter = ''pH'', measured = ''N/A'', limit = ''6.5-8.5'', status = ''unknown''\<rparr>]"
  using getPhStatus_missing_unknown [of "\<lparr>name = ''Plant A'', latest_telemetry = None\<rparr>" "\<lambda>x. []"]
    getPhStatus_missing_unknown [of "\<lparr>name = ''Plant B'', latest_telemetry =
       Some no_telemetry\<rparr>" "\<lambda>x. []"]
  by (simp add: no_telemetry_def)

text \<open>The claim as the specification words it fails at the reading without a pH.\<close>

theorem getPhStatus_missing_offline_counterexample:
  "getPhStatus None \<noteq> ''offline''"
  by (simp add: getPhStatus_def)

section \<open>Properties of the alerts feed\<close>

lemma insert_by_insort_key:
  "insert_by (\<lambda>a b. timestamp b - timestamp a) x ys = insort_key (\<lambda>a. - timestamp a) x ys"
  by (induction ys) auto

lemma Array_sort_sort_key:
  "Array_sort (\<lambda>a b. timestamp b - timestamp a) xs = sort_key (\<lambda>a. - timestamp a) xs"
  by (induction xs) (auto simp: Array_sort_def insert_by_insort_key)

lemma sorted_wrt_desc:
  "sorted (map (\<lambda>a. - timestamp a) ys) \<Longrightarrow> sorted_wrt (\<lambda>a b. timestamp b \<le> timestamp a) ys"
  by (induction ys) auto

text \<open>
  C3 (as the code has it). The feed shows the alerts of \<open>/api/alerts\<close> with the most
  recent timestamp first: the result is ordered by descending timestamp and holds the
  same alerts. The comparison looks at the timestamps only: alerts with equal timestamps
  keep the order in which the endpoint returned them, whatever their severities. No alert
  list (\<open>undefined\<close>) is the empty feed.
\<close>

theorem sortedAlerts_recent_first_stable:
  "sorted_wrt (\<lambda>a b. timestamp b \<le> timestamp a) (sortedAlerts (Some xs)) \<and>
   mset (sortedAlerts (Some xs)) = mset xs \<and>
   (\<forall>t. filter (\<lambda>a. timestamp a = t) (sortedAlerts (Some xs)) =
        filter (\<lambda>a. timestamp a = t) xs) \<and>
   sortedAlerts None = []"
proof -
  let ?key = "\<lambda>a. - timestamp a"
  have eq: "sortedAlerts (Some xs) = sort_key ?key xs"
    by (simp add: sortedAlerts_def Array_sort_sort_key)
  have "sorted (map ?key (sort_key ?key xs))"
    by (rule sorted_sort_key)
  then have ordered: "sorted_wrt (\<lambda>a b. timestamp b \<le> timestamp a) (sortedAlerts (Some xs))"
    unfolding eq by (rule sorted_wrt_desc)
  have stable: "filter (\<lambda>a. timestamp a = t) (sort_key ?key xs) = filter (\<lambda>a. timestamp a = t) xs"
    for t
    using sort_key_stable [of ?key "- t" xs] by simp
  have empty: "sortedAlerts None = []"
    by (simp add: sortedAlerts_def Array_sort_def)
  show ?thesis
    using ordered stable empty by (simp add: eq)
qed

theorem sortedAlerts_recent_first_stable_witness:
  "map alert_id (filter (\<lambda>a. timestamp a = 5) (sortedAlerts
      (Some [\<lparr>alert_id = 1, severity = ''warning'', title = ''Low pressure'', timestamp = 5\<rparr>,
             \<lparr>alert_id = 2, severity = ''critical'', title = ''pH breach'', timestamp = 9\<rparr>,
             \<lparr>alert_id = 3, severity = ''critical'', title = ''Leak'', timestamp = 5\<rparr>]))) = [1, 3]"
  using sortedAlerts_recent_first_stable
      [of "[\<lparr>alert_id = 1, severity = ''warning'', title = ''Low pressure'', timestamp = 5\<rparr>,
            \<lparr>alert_id = 2, severity = ''critical'', title = ''pH breach'', timestamp = 9\<rparr>,
            \<lparr>alert_id = 3, severity = ''critical'', title = ''Leak'', timestamp = 5\<rparr>]"]
  by simp

text \<open>
  The claim as the specification words it asks for \<open>critical\<close> before \<open>warning\<close> among
  equal timestamps. A warning returned before a critical alert of the same timestamp
  stays before it.
\<close>

theorem sortedAlerts_severity_tie_counterexample:
  "map (\<lambda>a. (timestamp a, severity a))
     (sortedAlerts
        (Some [\<lparr>alert_id = 1, severity = ''warning'', title = ''Low pressure'', timestamp = 5\<rparr>,
               \<lparr>alert_id = 2, severity = ''critical'', title = ''pH breach'', timestamp = 5\<rparr>]))
   = [(5, ''warning''), (5, ''critical'')]"
  by (simp add: sortedAlerts_def Array_sort_def)

section \<open>Properties of the rural dashboard\<close>

lemma foldl_plus_sum_list: "foldl (\<lambda>sum v. sum + f v) (a::real) xs = a + sum_list (map f xs)"
  by (induction xs arbitrary: a) simp_all

lemma depthValues_map_filter: "depthValues ds = List.map_filter depth ds"
  by (induction ds) (auto simp: depthValues_def List.map_filter_simps split: option.splits)

lemma foldl_upd_last:
  "foldl (\<lambda>acc d. acc(k d := v d)) f xs m =
     (if filter (\<lambda>d. k d = m) xs = [] then f m else v (last (filter (\<lambda>d. k d = m) xs)))"
  by (induction xs arbitrary: f) auto

lemma depthByMonthMap_last:
  "depthByMonthMap dtd s m =
     (if filter (\<lambda>d. trend_station d = s \<and> trend_month d = m) dtd = [] then None
      else trend_depth (last (filter (\<lambda>d. trend_station d = s \<and> trend_month d = m) dtd)))"
  by (simp add: depthByMonthMap_def foldl_upd_last)

lemma rechargeByMonthMap_last:
  "rechargeByMonthMap rtd s m =
     (if filter (\<lambda>d. recharge_trend_station d = s \<and> recharge_trend_month d = m) rtd = [] then None
      else trend_recharge
             (last (filter (\<lambda>d. recharge_trend_station d = s \<and> recharge_trend_month d = m) rtd)))"
  by (simp add: rechargeByMonthMap_def foldl_upd_last)

lemma last_seen_Cons:
  "last_seen f d (m # ms) = (case f m of Some v \<Rightarrow> last_seen f v ms | None \<Rightarrow> last_seen f d ms)"
  by (auto simp: last_seen_def List.map_filter_simps split: option.splits list.splits)

lemma carry_forward_length: "length (carry_forward point f d ms) = length ms"
  by (induction ms arbitrary: d) (auto split: option.splits)

lemma carry_forward_nth:
  "i < length ms \<Longrightarrow>
     carry_forward point f d ms ! i = point (ms ! i) (last_seen f d (take (Suc i) ms))"
proof (induction ms arbitrary: d i)
  case Nil
  then show ?case by simp
next
  case (Cons m ms)
  show ?case
  proof (cases i)
    case 0
    then show ?thesis
      by (simp add: last_seen_def List.map_filter_simps split: option.splits)
  next
    case (Suc j)
    then have "j < length ms" using Cons.prems by simp
    then show ?thesis
      using Cons.IH [of j] Suc by (simp add: last_seen_Cons split: option.splits)
  qed
qed

lemma carry_forward_map:
  "carry_forward point f d ms =
     map (\<lambda>i. point (ms ! i) (last_seen f d (take (Suc i) ms))) [0 ..< length ms]"
  by (rule nth_equalityI) (simp_all add: carry_forward_length carry_forward_nth)


lemma length_months: "length months = 12"
  by (simp add: months_def)

lemma foldl_plus_sum_list_id: "foldl (\<lambda>sum v. sum + v) 0 vs = sum_list vs" for vs :: "real list"
  using foldl_plus_sum_list [of "\<lambda>v. v" 0 vs] by simp

lemma rechargeValues_map_filter: "rechargeValues rs = List.map_filter recharge rs"
  by (induction rs) (auto simp: rechargeValues_def List.map_filter_simps split: option.splits)

lemma avgDepthSelected_mean:
  "avgDepthSelected ds =
     (if depthValues ds = [] then None
      else Some (sum_list (depthValues ds) / real (length (depthValues ds))))"
  by (simp add: avgDepthSelected_def foldl_plus_sum_list_id)

lemma avgRechargeSelected_mean:
  "avgRechargeSelected rs =
     (if rechargeValues rs = [] then None
      else Some (sum_list (rechargeValues rs) / real (length (rechargeValues rs))))"
  by (simp add: avgRechargeSelected_def foldl_plus_sum_list_id)

lemma depthValues_filled:
  "depthValues (map (\<lambda>i. \<lparr>month = nm i, depth = Some (g i)\<rparr>) is) = map g is"
  by (induction "is") (simp_all add: depthValues_def)

lemma rechargeValues_filled:
  "rechargeValues (map (\<lambda>i. \<lparr>recharge_month = nm i, recharge = Some (g i)\<rparr>) is) = map g is"
  by (induction "is") (simp_all add: rechargeValues_def)

lemma getStationData_selected:
  "s \<noteq> [] \<Longrightarrow>
   getStationData stats dtd rtd (Some s) =
     (map (\<lambda>i. \<lparr>month = months ! i,
                 depth = Some (last_seen (depthByMonthMap dtd s)
                   (case selectedWaterTableDepth stats (Some s) of None \<Rightarrow> 0 | Some d \<Rightarrow> d)
                   (take (Suc i) months))\<rparr>) [0 ..< 12],
      map (\<lambda>i. \<lparr>recharge_month = months ! i,
                 recharge = Some (last_seen (rechargeByMonthMap rtd s)
                   (case avg_recharge_rate stats of None \<Rightarrow> 0 | Some r \<Rightarrow> r)
                   (take (Suc i) months))\<rparr>) [0 ..< 12])"
  by (simp add: getStationData_def Let_def carry_forward_map length_months)

lemma displayAverages_selected:
  "s \<noteq> [] \<Longrightarrow>
   displayAverages stats dtd (Some rtd) (Some s) =
     Inr (Some (sum_list (map (\<lambda>i. last_seen (depthByMonthMap dtd s)
                   (case selectedWaterTableDepth stats (Some s) of None \<Rightarrow> 0 | Some d \<Rightarrow> d)
                   (take (Suc i) months)) [0 ..< 12]) / 12),
          Some (sum_list (map (\<lambda>i. last_seen (rechargeByMonthMap rtd s)
                   (case avg_recharge_rate stats of None \<Rightarrow> 0 | Some r \<Rightarrow> r)
                   (take (Suc i) months)) [0 ..< 12]) / 12))"
  by (simp add: displayAverages_def getStationData_selected avgDepthSelected_mean
      avgRechargeSelected_mean depthValues_filled rechargeValues_filled del: upt_Suc)

lemma displayAverages_unselected:
  "displayAverages stats dtd (Some rtd) None = Inr (None, None) \<and>
   displayAverages stats dtd (Some rtd) (Some []) = Inr (None, None)"
  by (simp add: displayAverages_def getStationData_def)

text \<open>
  When the recharge rows are \<open>undefined\<close> the component throws, whatever is selected.
\<close>

lemma displayAverages_TypeError: "displayAverages stats dtd None sel = Inl TypeError"
  by (simp add: displayAverages_def)

text \<open>
  C4 (as the code has it). When a station is selected, the mean depth and the mean
  recharge the dashboard shows are the means of twelve monthly values: the month's own
  value where the station's trend rows have one, and otherwise the last value seen in an
  earlier month, or the default (the selected water table depth or 0, the average
  recharge rate or 0) when there is none. A month without a reading is thus filled, not
  left out. The averaging step itself sums and counts the values that are not \<open>null\<close>
  and divides only when there is one; the means shown are \<open>null\<close> exactly when no station
  is selected.
\<close>

theorem station_means_fill_missing_months:
  "depthValues ds = List.map_filter depth ds \<and>
   rechargeValues rs = List.map_filter recharge rs \<and>
   avgDepthSelected ds =
     (if depthValues ds = [] then None
      else Some (sum_list (depthValues ds) / real (length (depthValues ds)))) \<and>
   avgRechargeSelected rs =
     (if rechargeValues rs = [] then None
      else Some (sum_list (rechargeValues rs) / real (length (rechargeValues rs)))) \<and>
   depthByMonthMap dtd s m =
     (if filter (\<lambda>d. trend_station d = s \<and> trend_month d = m) dtd = [] then None
      else trend_depth (last (filter (\<lambda>d. trend_station d = s \<and> trend_month d = m) dtd))) \<and>
   rechargeByMonthMap rtd s m =
     (if filter (\<lambda>d. recharge_trend_station d = s \<and> recharge_trend_month d = m) rtd = [] then None
      else trend_recharge
             (last (filter (\<lambda>d. recharge_trend_station d = s \<and> recharge_trend_month d = m) rtd))) \<and>
   (s \<noteq> [] \<longrightarrow>
      getStationData stats dtd rtd (Some s) =
        (map (\<lambda>i. \<lparr>month = months ! i,
                    depth = Some (last_seen (depthByMonthMap dtd s)
                      (case selectedWaterTableDepth stats (Some s) of None \<Rightarrow> 0 | Some d \<Rightarrow> d)
                      (take (Suc i) months))\<rparr>) [0 ..< 12],
         map (\<lambda>i. \<lparr>recharge_month = months ! i,
                    recharge = Some (last_seen (rechargeByMonthMap rtd s)
                      (case avg_recharge_rate stats of None \<Rightarrow> 0 | Some r \<Rightarrow> r)
                      (take (Suc i) months))\<rparr>) [0 ..< 12]) \<and>
      displayAverages stats dtd (Some rtd) (Some s) =
        Inr (Some (sum_list (map (\<lambda>i. last_seen (depthByMonthMap dtd s)
                      (case selectedWaterTableDepth stats (Some s) of None \<Rightarrow> 0 | Some d \<Rightarrow> d)
                      (take (Suc i) months)) [0 ..< 12]) / 12),
             Some (sum_list (map (\<lambda>i. last_seen (rechargeByMonthMap rtd s)
                      (case avg_recharge_rate stats of None \<Rightarrow> 0 | Some r \<Rightarrow> r)
                      (take (Suc i) months)) [0 ..< 12]) / 12))) \<and>
   displayAverages stats dtd (Some rtd) None = Inr (None, None) \<and>
   displayAverages stats dtd (Some rtd) (Some []) = Inr (None, None)"
  using depthValues_map_filter [of ds] rechargeValues_map_filter [of rs]
    avgDepthSelected_mean [of ds] avgRechargeSelected_mean [of rs]
    depthByMonthMap_last [of dtd s m] rechargeByMonthMap_last [of rtd s m]
    getStationData_selected [of s stats dtd rtd] displayAverages_selected [of s stats dtd rtd]
    displayAverages_unselected [of stats dtd rtd]
  by blast

theorem station_means_fill_missing_months_witness:
  "displayAverages
     \<lparr>stations = Some [\<lparr>name = ''Village Well'',
                         latest_telemetry = Some (no_telemetry\<lparr>water_table_m := Some 10\<rparr>),
                         station_aquifer_depth_m = None, station_water_table_m = None\<rparr>],
      avg_aquifer_depth_m = None, avg_recharge_rate = Some 12\<rparr>
     [\<lparr>trend_month = ''Mar'', trend_station = ''Village Well'', trend_depth = Some 40\<rparr>,
      \<lparr>trend_month = ''Mar'', trend_station = ''Dry Well'', trend_depth = Some 99\<rparr>,
      \<lparr>trend_month = ''May'', trend_station = ''Village Well'', trend_depth = Some 50\<rparr>]
     (Some []) (Some ''Village Well'') = Inr (Some (500 / 12), Some 12) \<and>
   avgDepthSelected [\<lparr>month = ''Jan'', depth = Some 40\<rparr>, \<lparr>month = ''Feb'', depth = Some 50\<rparr>,
                     \<lparr>month = ''Mar'', depth = None\<rparr>] = Some 45 \<and>
   avgRechargeSelected [\<lparr>recharge_month = ''Jan'', recharge = None\<rparr>] = None"
proof -
  have step: "avgDepthSelected [\<lparr>month = ''Jan'', depth = Some 40\<rparr>, \<lparr>month = ''Feb'', depth = Some 50\<rparr>,
                     \<lparr>month = ''Mar'', depth = None\<rparr>] = Some 45 \<and>
      avgRechargeSelected [\<lparr>recharge_month = ''Jan'', recharge = None\<rparr>] = None"
    using station_means_fill_missing_months
      [where ds = "[\<lparr>month = ''Jan'', depth = Some 40\<rparr>, \<lparr>month = ''Feb'', depth = Some 50\<rparr>,
                    \<lparr>month = ''Mar'', depth = None\<rparr>]"
         and rs = "[\<lparr>recharge_month = ''Jan'', recharge = None\<rparr>]"]
    by (simp add: List.map_filter_simps)
  have up: "[0 ..< 12] = [0, 1, 2, 3, 4, 5, 6, 7, 8, 9, 10, 11 :: nat]"
    by (simp add: upt_rec)
  show ?thesis
    using step station_means_fill_missing_months
      [where s = "''Village Well''"
         and stats = "\<lparr>stations = Some [\<lparr>name = ''Village Well'',
                         latest_telemetry = Some (no_telemetry\<lparr>water_table_m := Some 10\<rparr>),
                         station_aquifer_depth_m = None, station_water_table_m = None\<rparr>],
                       avg_aquifer_depth_m = None, avg_recharge_rate = Some 12\<rparr>"
         and dtd = "[\<lparr>trend_month = ''Mar'', trend_station = ''Village Well'', trend_depth = Some 40\<rparr>,
                     \<lparr>trend_month = ''Mar'', trend_station = ''Dry Well'', trend_depth = Some 99\<rparr>,
                     \<lparr>trend_month = ''May'', trend_station = ''Village Well'', trend_depth = Some 50\<rparr>]"
         and rtd = "[]"]
    by (simp add: up last_seen_def List.map_filter_simps months_def depthByMonthMap_def
        rechargeByMonthMap_def selectedWaterTableDepth_def selectedTelemetry_def
        selectedStationData_def nullish_def no_telemetry_def)
qed

text \<open>
  The claim as the specification words it fails at a station with the values 40 and 50
  for January and February and no other: the mean shown is 590 / 12, not 45, the ten
  months without a value counting as 50; and with no recharge value at all and no default
  the recharge mean shown is 0, not \<open>null\<close>.
\<close>

theorem station_means_claim_example_counterexample:
  "displayAverages
     \<lparr>stations = Some [\<lparr>name = ''Village Well'', latest_telemetry = None,
                         station_aquifer_depth_m = None, station_water_table_m = None\<rparr>],
      avg_aquifer_depth_m = None, avg_recharge_rate = None\<rparr>
     [\<lparr>trend_month = ''Jan'', trend_station = ''Village Well'', trend_depth = Some 40\<rparr>,
      \<lparr>trend_month = ''Feb'', trend_station = ''Village Well'', trend_depth = Some 50\<rparr>]
     (Some []) (Some ''Village Well'') = Inr (Some (590 / 12), Some 0)"
  by (simp add: displayAverages_def getStationData_def selectedWaterTableDepth_def
      selectedAquiferDepth_def selectedTelemetry_def selectedStationData_def nullish_def
      depthByMonthMap_def rechargeByMonthMap_def months_def avgDepthSelected_def
      avgRechargeSelected_def depthValues_def rechargeValues_def)

text \<open>
  C6 (as the code has it). The water table depth of the selected station is derived from
  the aquifer depth only when neither the latest telemetry nor the station itself carries
  a water table value; it is then exactly 0.25 times the aquifer depth the dashboard has
  resolved, with no noise, and \<open>null\<close> when that aquifer depth is zero.
\<close>

theorem selectedWaterTableDepth_derived:
  "Option.bind (selectedTelemetry stats sel) water_table_m = None \<and>
   Option.bind (selectedStationData stats sel) station_water_table_m = None \<longrightarrow>
     selectedWaterTableDepth stats sel =
       (if selectedAquiferDepth stats sel \<noteq> 0
        then Some (selectedAquiferDepth stats sel * 0.25) else None)"
  by (simp add: selectedWaterTableDepth_def nullish_def)

theorem selectedWaterTableDepth_derived_witness:
  "selectedWaterTableDepth
     \<lparr>stations = Some [\<lparr>name = ''Village Well'',
                         latest_telemetry = Some (no_telemetry\<lparr>aquifer_depth_m := Some 80\<rparr>),
                         station_aquifer_depth_m = None, station_water_table_m = None\<rparr>],
      avg_aquifer_depth_m = None, avg_recharge_rate = None\<rparr> (Some ''Village Well'') = Some 20 \<and>
   selectedWaterTableDepth
     \<lparr>stations = Some [\<lparr>name = ''Dry Well'',
                         latest_telemetry = Some (no_telemetry\<lparr>aquifer_depth_m := Some 0\<rparr>),
                         station_aquifer_depth_m = None, station_water_table_m = None\<rparr>],
      avg_aquifer_depth_m = Some 35, avg_recharge_rate = None\<rparr> (Some ''Dry Well'') = None"
  using selectedWaterTableDepth_derived
      [of "\<lparr>stations = Some [\<lparr>name = ''Village Well'',
                         latest_telemetry = Some (no_telemetry\<lparr>aquifer_depth_m := Some 80\<rparr>),
                         station_aquifer_depth_m = None, station_water_table_m = None\<rparr>],
      avg_aquifer_depth_m = None, avg_recharge_rate = None\<rparr>" "Some ''Village Well''"]
    selectedWaterTableDepth_derived
      [of "\<lparr>stations = Some [\<lparr>name = ''Dry Well'',
                         latest_telemetry = Some (no_telemetry\<lparr>aquifer_depth_m := Some 0\<rparr>),
                         station_aquifer_depth_m = None, station_water_table_m = None\<rparr>],
      avg_aquifer_depth_m = Some 35, avg_recharge_rate = None\<rparr>" "Some ''Dry Well''"]
  by (simp add: selectedAquiferDepth_def selectedTelemetry_def selectedStationData_def
      nullish_def no_telemetry_def)

text \<open>
  The claim as the specification words it fails at a station whose telemetry has no water
  table value while the station record has one: the depth shown is the station's 3, where
  0.25 times the aquifer depth of 80 is 20. It fails also at a station without any water
  table value whose aquifer depth is 0: no depth is derived.
\<close>

theorem selectedWaterTableDepth_station_value_counterexample:
  "Option.bind
     (selectedTelemetry
        \<lparr>stations = Some [\<lparr>name = ''Village Well'',
                            latest_telemetry = Some (no_telemetry\<lparr>aquifer_depth_m := Some 80\<rparr>),
                            station_aquifer_depth_m = None, station_water_table_m = Some 3\<rparr>],
         avg_aquifer_depth_m = None, avg_recharge_rate = None\<rparr> (Some ''Village Well''))
     water_table_m = None \<and>
   selectedAquiferDepth
     \<lparr>stations = Some [\<lparr>name = ''Village Well'',
                         latest_telemetry = Some (no_telemetry\<lparr>aquifer_depth_m := Some 80\<rparr>),
                         station_aquifer_depth_m = None, station_water_table_m = Some 3\<rparr>],
      avg_aquifer_depth_m = None, avg_recharge_rate = None\<rparr> (Some ''Village Well'') * 0.25 = 20 \<and>
   selectedWaterTableDepth
     \<lparr>stations = Some [\<lparr>name = ''Village Well'',
                         latest_telemetry = Some (no_telemetry\<lparr>aquifer_depth_m := Some 80\<rparr>),
                         station_aquifer_depth_m = None, station_water_table_m = Some 3\<rparr>],
      avg_aquifer_depth_m = None, avg_recharge_rate = None\<rparr> (Some ''Village Well'') = Some 3 \<and>
   selectedWaterTableDepth
     \<lparr>stations = Some [\<lparr>name = ''Dry Well'',
                         latest_telemetry = Some (no_telemetry\<lparr>aquifer_depth_m := Some 0\<rparr>),
                         station_aquifer_depth_m = None, station_water_table_m = None\<rparr>],
      avg_aquifer_depth_m = Some 35, avg_recharge_rate = None\<rparr> (Some ''Dry Well'') = None"
  by (simp add: selectedWaterTableDepth_def selectedAquiferDepth_def selectedTelemetry_def
      selectedStationData_def nullish_def no_telemetry_def)

text \<open>
  In general a water table value of the latest telemetry is shown as it is, and without
  one the station's own value is.
\<close>

lemma selectedWaterTableDepth_precedence:
  "(Option.bind (selectedTelemetry stats sel) water_table_m = Some v \<longrightarrow>
      selectedWaterTableDepth stats sel = Some v) \<and>
   (Option.bind (selectedTelemetry stats sel) water_table_m = None \<and>
    Option.bind (selectedStationData stats sel) station_water_table_m = Some v \<longrightarrow>
      selectedWaterTableDepth stats sel = Some v)"
  by (simp add: selectedWaterTableDepth_def nullish_def)

section \<open>Properties of the map view\<close>

text \<open>
  C10. When some node passes the context filter, the centring effect sets the centre to
  the mean of the filtered nodes' latitudes and the mean of their longitudes; when none
  does, the view (its centre included) is left as it was, and nothing is divided.
\<close>

theorem autoCenter_mean:
  "(filteredNodes cf nodes \<noteq> [] \<longrightarrow>
      center (autoCenter cf nodes view) =
        (sum_list (map latitude (filteredNodes cf nodes)) / real (length (filteredNodes cf nodes)),
         sum_list (map longitude (filteredNodes cf nodes)) / real (length (filteredNodes cf nodes)))) \<and>
   (filteredNodes cf nodes = [] \<longrightarrow> autoCenter cf nodes view = view)"
  by (simp add: autoCenter_def Let_def foldl_plus_sum_list)

theorem autoCenter_mean_witness:
  "center (autoCenter ''urban''
      [\<lparr>node_id = 1, context_mode = ''urban'', latitude = 28, longitude = 77\<rparr>,
       \<lparr>node_id = 2, context_mode = ''rural'', latitude = 10, longitude = 10\<rparr>,
       \<lparr>node_id = 3, context_mode = ''urban'', latitude = 29, longitude = 78\<rparr>]
      \<lparr>center = (28.5, 77.1), zoom = 11\<rparr>) = (57 / 2, 155 / 2) \<and>
   autoCenter ''industrial''
      [\<lparr>node_id = 1, context_mode = ''urban'', latitude = 28, longitude = 77\<rparr>,
       \<lparr>node_id = 2, context_mode = ''rural'', latitude = 10, longitude = 10\<rparr>]
      \<lparr>center = (28.5, 77.1), zoom = 11\<rparr> = \<lparr>center = (28.5, 77.1), zoom = 11\<rparr>"
  using autoCenter_mean [of "''urban''"
      "[\<lparr>node_id = 1, context_mode = ''urban'', latitude = 28, longitude = 77\<rparr>,
        \<lparr>node_id = 2, context_mode = ''rural'', latitude = 10, longitude = 10\<rparr>,
        \<lparr>node_id = 3, context_mode = ''urban'', latitude = 29, longitude = 78\<rparr>]"
      "\<lparr>center = (28.5, 77.1), zoom = 11\<rparr>"]
    autoCenter_mean [of "''industrial''"
      "[\<lparr>node_id = 1, context_mode = ''urban'', latitude = 28, longitude = 77\<rparr>,
        \<lparr>node_id = 2, context_mode = ''rural'', latitude = 10, longitude = 10\<rparr>]"
      "\<lparr>center = (28.5, 77.1), zoom = 11\<rparr>"]
  by (simp add: filteredNodes_def)

section \<open>Properties of the distance function\<close>

lemma sin_sq_swap:
  "sin (((b - a) * pi) / 180 / 2) * sin (((b - a) * pi) / 180 / 2)
   = sin (((a - b) * pi) / 180 / 2) * sin (((a - b) * pi) / 180 / 2)" for a b :: real
proof -
  have "b - a = - (a - b)"
    by simp
  then have "((b - a) * pi) / 180 / 2 = - (((a - b) * pi) / 180 / 2)"
    by (simp only: mult_minus_left minus_divide_left)
  then show ?thesis
    by (simp only: sin_minus minus_mult_minus)
qed

lemma haversine_unit:
  fixes p1 p2 y :: real
  shows "0 \<le> sin ((p2 - p1) / 2) * sin ((p2 - p1) / 2) + cos p1 * cos p2 * sin y * sin y \<and>
         sin ((p2 - p1) / 2) * sin ((p2 - p1) / 2) + cos p1 * cos p2 * sin y * sin y \<le> 1"
proof -
  define q where "q = sin y * sin y"
  define A where "A = cos (p2 - p1)"
  define B where "B = cos (p2 + p1)"
  have q: "0 \<le> q" "q \<le> 1"
  proof -
    have "(sin y)\<^sup>2 + (cos y)\<^sup>2 = 1"
      by simp
    moreover have "0 \<le> (cos y)\<^sup>2"
      by simp
    ultimately have "(sin y)\<^sup>2 \<le> 1"
      by linarith
    then show "q \<le> 1"
      by (simp add: q_def power2_eq_square)
    show "0 \<le> q"
      by (simp add: q_def)
  qed
  have A: "- 1 \<le> A" "A \<le> 1" and B: "- 1 \<le> B" "B \<le> 1"
    by (simp_all add: A_def B_def)
  have dbl: "2 * ((p2 - p1) / 2) = p2 - p1"
    by simp
  have "cos (2 * ((p2 - p1) / 2)) = 1 - 2 * (sin ((p2 - p1) / 2))\<^sup>2"
    by (rule cos_double_sin)
  then have "A = 1 - 2 * (sin ((p2 - p1) / 2) * sin ((p2 - p1) / 2))"
    unfolding dbl A_def power2_eq_square .
  then have half: "sin ((p2 - p1) / 2) * sin ((p2 - p1) / 2) = (1 - A) / 2"
    by simp
  have prod: "cos p1 * cos p2 = (A + B) / 2"
    by (simp add: A_def B_def cos_diff cos_add)
  have a_eq: "sin ((p2 - p1) / 2) * sin ((p2 - p1) / 2) + cos p1 * cos p2 * sin y * sin y
      = (1 - q) * ((1 - A) / 2) + q * ((1 + B) / 2)"
  proof -
    have "cos p1 * cos p2 * sin y * sin y = (A + B) / 2 * q"
      by (simp add: prod q_def mult.assoc)
    then show ?thesis
      unfolding half by (simp add: field_simps)
  qed
  have t1: "0 \<le> (1 - q) * ((1 - A) / 2)"
    by (rule mult_nonneg_nonneg) (use q A in simp_all)
  have t2: "(1 - q) * ((1 - A) / 2) \<le> (1 - q) * 1"
    by (rule mult_left_mono) (use q A in simp_all)
  have t3: "0 \<le> q * ((1 + B) / 2)"
    by (rule mult_nonneg_nonneg) (use q B in simp_all)
  have t4: "q * ((1 + B) / 2) \<le> q * 1"
    by (rule mult_left_mono) (use q B in simp_all)
  define u where "u = (1 - q) * ((1 - A) / 2)"
  define v where "v = q * ((1 + B) / 2)"
  have "0 \<le> u" "u \<le> 1 - q" "0 \<le> v" "v \<le> q"
    using t1 t2 t3 t4 by (simp_all only: u_def v_def mult_1_right)
  then have "0 \<le> u + v \<and> u + v \<le> 1"
    by linarith
  then show ?thesis
    unfolding a_eq u_def v_def .
qed

lemma haversine_range:
  "0 \<le> sin (((lat2 - lat1) * pi) / 180 / 2) * sin (((lat2 - lat1) * pi) / 180 / 2) +
         cos ((lat1 * pi) / 180) * cos ((lat2 * pi) / 180) *
           sin (((lng2 - lng1) * pi) / 180 / 2) * sin (((lng2 - lng1) * pi) / 180 / 2) \<and>
   sin (((lat2 - lat1) * pi) / 180 / 2) * sin (((lat2 - lat1) * pi) / 180 / 2) +
         cos ((lat1 * pi) / 180) * cos ((lat2 * pi) / 180) *
           sin (((lng2 - lng1) * pi) / 180 / 2) * sin (((lng2 - lng1) * pi) / 180 / 2) \<le> 1"
proof -
  have e: "((lat2 - lat1) * pi) / 180 / 2 = ((lat2 * pi) / 180 - (lat1 * pi) / 180) / 2"
    by (simp add: left_diff_distrib diff_divide_distrib)
  show ?thesis
    unfolding e by (rule haversine_unit)
qed

text \<open>
  For real coordinates the haversine term lies between 0 and 1, so neither square root is
  \<open>NaN\<close>: the result is always the rendering of the radius times the central angle.
\<close>

lemma calculateDistance_rendering:
  "calculateDistance ToString lat1 lng1 lat2 lng2 =
     (let a = sin (((lat2 - lat1) * pi) / 180 / 2) * sin (((lat2 - lat1) * pi) / 180 / 2) +
              cos ((lat1 * pi) / 180) * cos ((lat2 * pi) / 180) *
                sin (((lng2 - lng1) * pi) / 180 / 2) * sin (((lng2 - lng1) * pi) / 180 / 2)
      in toFixed ToString 2 (6371 * (2 * Math_atan2 (sqrt a) (sqrt (1 - a)))))"
  using haversine_range [of lat2 lat1 lng2 lng1]
  by (simp add: calculateDistance_def Math_sqrt_def Let_def)

text \<open>
  C9. The distance function is symmetric: it renders the same distance from the first
  point to the second as from the second to the first. From a point to itself it renders
  \<open>0.00\<close>.
\<close>

theorem calculateDistance_symmetric_zero:
  "calculateDistance ToString lat1 lng1 lat2 lng2 = calculateDistance ToString lat2 lng2 lat1 lng1 \<and>
   calculateDistance ToString lat lng lat lng = ''0.00''"
proof
  have a_eq: "sin (((lat2 - lat1) * pi) / 180 / 2) * sin (((lat2 - lat1) * pi) / 180 / 2) +
              cos ((lat1 * pi) / 180) * cos ((lat2 * pi) / 180) *
                sin (((lng2 - lng1) * pi) / 180 / 2) * sin (((lng2 - lng1) * pi) / 180 / 2)
            = sin (((lat1 - lat2) * pi) / 180 / 2) * sin (((lat1 - lat2) * pi) / 180 / 2) +
              cos ((lat2 * pi) / 180) * cos ((lat1 * pi) / 180) *
                sin (((lng1 - lng2) * pi) / 180 / 2) * sin (((lng1 - lng2) * pi) / 180 / 2)"
    using sin_sq_swap [of lat2 lat1] sin_sq_swap [of lng2 lng1]
    by (simp add: mult.assoc mult.commute)
  show "calculateDistance ToString lat1 lng1 lat2 lng2 = calculateDistance ToString lat2 lng2 lat1 lng1"
    unfolding calculateDistance_def Let_def a_eq ..
next
  have "toFixed ToString 2 0 = ''0.00''"
    by (simp add: toFixed_def Let_def decimal.simps digit_char_def)
  then show "calculateDistance ToString lat lng lat lng = ''0.00''"
    by (simp add: calculateDistance_def Math_sqrt_def Math_atan2_def)
qed

section \<open>Properties of the backend's classifier\<close>

text \<open>
  C5. Every urban reading whose pressure is below 30 is classified \<open>critical\<close>, whatever
  its other fields are and whichever readings count as malformed; so is the urban reading
  of Scenario A, given by a pressure of 25 alone.
\<close>

theorem classify_urban_low_pressure:
  "(pressure r = Some p \<and> p < 30 \<longrightarrow> classify malformed drought Urban (Some r) = Critical) \<and>
   classify malformed drought Urban (Some (no_telemetry\<lparr>pressure := Some 25\<rparr>)) = Critical"
  by (simp add: classify_def hard_critical_def breach_def no_telemetry_def)

theorem classify_urban_low_pressure_witness:
  "pressure (no_telemetry\<lparr>pressure := Some 29.9, ph_level := Some 7\<rparr>) = Some 29.9 \<and>
   (29.9 :: real) < 30 \<and>
   classify (\<lambda>c r. flow_rate r = None) 100 Urban
     (Some (no_telemetry\<lparr>pressure := Some 29.9, ph_level := Some 7\<rparr>)) = Critical"
  using classify_urban_low_pressure
      [of "no_telemetry\<lparr>pressure := Some 29.9, ph_level := Some 7\<rparr>" "29.9"
          "\<lambda>c r. flow_rate r = None" 100]
  by simp

section \<open>Properties of the scheduler\<close>

lemma run_Suc: "run cfg w nodes (Suc k) = step cfg w nodes (run cfg w nodes k)"
  by (simp add: run_def)

lemma run_0: "run cfg w nodes 0 = start"
  by (simp add: run_def)

lemma run_log:
  "submissions (run cfg w nodes k) = concat (map (tick w nodes) [0 ..< tick_no (run cfg w nodes k)]) \<and>
   summaries (run cfg w nodes k) =
     map (\<lambda>t. summarize (tick w nodes t)) [0 ..< tick_no (run cfg w nodes k)]"
proof (induction k)
  case 0
  show ?case by (simp add: run_0 start_def)
next
  case (Suc k)
  then show ?case
    by (cases "phase (run cfg w nodes k)") (simp_all add: run_Suc step_def Let_def)
qed

lemma tick_once:
  "map sub_node (tick w nodes t) = map node_id nodes \<and>
   map sub_reading (tick w nodes t) = map (\<lambda>n. generate w n t) nodes"
  by (simp add: tick_def comp_def)

lemma failed_count:
  "failed (summarize (tick w nodes t)) =
     length (filter (\<lambda>n. \<not> submit w t (node_id n) (generate w n t)) nodes)"
  by (simp add: summarize_def tick_def filter_map comp_def)

lemma unbounded_running:
  "cycles cfg = None \<Longrightarrow> \<forall>t<k. \<not> stop_requested w t \<Longrightarrow>
   run cfg w nodes (Suc k) =
     \<lparr>phase = Running, tick_no = k, slept_seconds = k * interval_seconds cfg,
      summaries = map (\<lambda>t. summarize (tick w nodes t)) [0 ..< k],
      submissions = concat (map (tick w nodes) [0 ..< k])\<rparr>"
proof (induction k)
  case 0
  show ?case by (simp add: run_def start_def step_def)
next
  case (Suc k)
  then have "run cfg w nodes (Suc k) =
     \<lparr>phase = Running, tick_no = k, slept_seconds = k * interval_seconds cfg,
      summaries = map (\<lambda>t. summarize (tick w nodes t)) [0 ..< k],
      submissions = concat (map (tick w nodes) [0 ..< k])\<rparr>" by simp
  moreover have "\<not> stop_requested w k" using Suc.prems by simp
  ultimately show ?case
    using Suc.prems(1) by (simp add: run_Suc [of _ _ _ "Suc k"] step_def cycles_done_def Let_def)
qed

lemma never_completed: "cycles cfg = None \<Longrightarrow> phase (run cfg w nodes k) \<noteq> Completed"
proof (induction k)
  case 0
  show ?case by (simp add: run_0 start_def)
next
  case (Suc k)
  then show ?case
    by (cases "phase (run cfg w nodes k)") (simp_all add: run_Suc step_def Let_def cycles_done_def)
qed

text \<open>
  C7. In every tick each node's reading is submitted exactly once, whether the sink
  accepts it or not: a failed submission is counted in the cycle's summary and is not
  submitted again. Over the whole run the calls made to the sink are, tick after tick,
  the readings generated for that tick: no failed reading of an earlier tick is delivered
  later.
\<close>

theorem failed_submission_counted_not_retried:
  "map sub_node (tick w nodes t) = map node_id nodes \<and>
   map sub_reading (tick w nodes t) = map (\<lambda>n. generate w n t) nodes \<and>
   failed (summarize (tick w nodes t)) =
     length (filter (\<lambda>n. \<not> submit w t (node_id n) (generate w n t)) nodes) \<and>
   submissions (run cfg w nodes k) =
     concat (map (tick w nodes) [0 ..< tick_no (run cfg w nodes k)]) \<and>
   summaries (run cfg w nodes k) =
     map (\<lambda>t. summarize (tick w nodes t)) [0 ..< tick_no (run cfg w nodes k)]"
  using tick_once [of w nodes t] failed_count [of w nodes t] run_log [of cfg w nodes k]
  by blast

theorem failed_submission_counted_not_retried_witness:
  "map failed (summaries (run \<lparr>interval_seconds = 2, cycles = Some 3, endpoint = ''http://localhost:8000''\<rparr>
      \<lparr>generate = (\<lambda>n t. no_telemetry), submit = (\<lambda>t i r. i \<noteq> 2), stop_requested = (\<lambda>t. False)\<rparr>
      [\<lparr>node_id = 1, context_mode = ''urban'', latitude = 28, longitude = 77\<rparr>,
       \<lparr>node_id = 2, context_mode = ''rural'', latitude = 27, longitude = 76\<rparr>] 5)) = [1, 1, 1] \<and>
   map (\<lambda>s. (sub_tick s, sub_node s, accepted s))
     (submissions (run \<lparr>interval_seconds = 2, cycles = Some 3, endpoint = ''http://localhost:8000''\<rparr>
      \<lparr>generate = (\<lambda>n t. no_telemetry), submit = (\<lambda>t i r. i \<noteq> 2), stop_requested = (\<lambda>t. False)\<rparr>
      [\<lparr>node_id = 1, context_mode = ''urban'', latitude = 28, longitude = 77\<rparr>,
       \<lparr>node_id = 2, context_mode = ''rural'', latitude = 27, longitude = 76\<rparr>] 5))
     = [(0, 1, True), (0, 2, False), (1, 1, True), (1, 2, False), (2, 1, True), (2, 2, False)] \<and>
   phase (run \<lparr>interval_seconds = 2, cycles = Some 3, endpoint = ''http://localhost:8000''\<rparr>
      \<lparr>generate = (\<lambda>n t. no_telemetry), submit = (\<lambda>t i r. i \<noteq> 2), stop_requested = (\<lambda>t. False)\<rparr>
      [\<lparr>node_id = 1, context_mode = ''urban'', latitude = 28, longitude = 77\<rparr>,
       \<lparr>node_id = 2, context_mode = ''rural'', latitude = 27, longitude = 76\<rparr>] 5) = Completed"
proof -
  let ?cfg = "\<lparr>interval_seconds = 2, cycles = Some 3, endpoint = ''http://localhost:8000''\<rparr>"
  let ?w = "\<lparr>generate = (\<lambda>n t. no_telemetry), submit = (\<lambda>t i r. i \<noteq> (2::nat)), stop_requested = (\<lambda>t. False)\<rparr>"
  let ?nodes = "[\<lparr>node_id = 1, context_mode = ''urban'', latitude = 28, longitude = 77\<rparr>,
       \<lparr>node_id = 2, context_mode = ''rural'', latitude = 27, longitude = 76\<rparr>]"
  have st: "phase (run ?cfg ?w ?nodes 5) = Completed \<and> tick_no (run ?cfg ?w ?nodes 5) = 3"
    by (simp add: run_def eval_nat_numeral start_def step_def cycles_done_def Let_def)
  have up: "[0 ..< 3] = [0, 1, 2::nat]"
    by (simp add: eval_nat_numeral upt_rec)
  show ?thesis
    using failed_submission_counted_not_retried [of ?w ?nodes 0 ?cfg 5] st
    by (simp add: up tick_def summarize_def)
qed

text \<open>
  C8. Invoked without an interval and without a cycle count, the scheduler sleeps 2
  seconds between ticks and has no cycle bound: the run never completes by itself, it is
  still running after any number of ticks for which no stop signal has arrived, and it
  stops after the tick during which the signal arrives.
\<close>

theorem scheduler_defaults:
  "interval_seconds (configure \<lparr>interval_arg = None, cycles_arg = None, url_arg = u\<rparr>) = 2 \<and>
   cycles (configure \<lparr>interval_arg = None, cycles_arg = None, url_arg = u\<rparr>) = None \<and>
   phase (run (configure \<lparr>interval_arg = None, cycles_arg = None, url_arg = u\<rparr>) w nodes k)
     \<noteq> Completed \<and>
   ((\<forall>t<k. \<not> stop_requested w t) \<longrightarrow>
      phase (run (configure \<lparr>interval_arg = None, cycles_arg = None, url_arg = u\<rparr>) w nodes (Suc k))
        = Running \<and>
      tick_no (run (configure \<lparr>interval_arg = None, cycles_arg = None, url_arg = u\<rparr>) w nodes (Suc k))
        = k \<and>
      slept_seconds
        (run (configure \<lparr>interval_arg = None, cycles_arg = None, url_arg = u\<rparr>) w nodes (Suc k))
        = 2 * k) \<and>
   ((\<forall>t<k. \<not> stop_requested w t) \<and> stop_requested w k \<longrightarrow>
      phase (run (configure \<lparr>interval_arg = None, cycles_arg = None, url_arg = u\<rparr>) w nodes
               (Suc (Suc k))) = Stopped \<and>
      tick_no (run (configure \<lparr>interval_arg = None, cycles_arg = None, url_arg = u\<rparr>) w nodes
                 (Suc (Suc k))) = Suc k)"
proof -
  define cfg where "cfg = configure \<lparr>interval_arg = None, cycles_arg = None, url_arg = u\<rparr>"
  have unbounded: "cycles cfg = None" and two: "interval_seconds cfg = 2"
    by (simp_all add: cfg_def configure_def)
  have live: "phase (run cfg w nodes k) \<noteq> Completed"
    using unbounded by (rule never_completed)
  have going: "phase (run cfg w nodes (Suc k)) = Running \<and> tick_no (run cfg w nodes (Suc k)) = k \<and>
      slept_seconds (run cfg w nodes (Suc k)) = 2 * k"
    if "\<forall>t<k. \<not> stop_requested w t"
    using unbounded_running [OF unbounded that, of nodes] by (simp add: two)
  have halt: "phase (run cfg w nodes (Suc (Suc k))) = Stopped \<and>
      tick_no (run cfg w nodes (Suc (Suc k))) = Suc k"
    if "\<forall>t<k. \<not> stop_requested w t" and "stop_requested w k"
    using unbounded_running [OF unbounded that(1), of nodes] that(2) unbounded
    by (simp add: run_Suc [of _ _ _ "Suc k"] step_def cycles_done_def Let_def)
  show ?thesis
    using unbounded two live going halt unfolding cfg_def by blast
qed

theorem scheduler_defaults_witness:
  "phase (run (configure \<lparr>interval_arg = None, cycles_arg = None, url_arg = ''http://localhost:8000''\<rparr>)
            \<lparr>generate = (\<lambda>n t. no_telemetry), submit = (\<lambda>t i r. True), stop_requested = (\<lambda>t. t = 3)\<rparr>
            [\<lparr>node_id = 1, context_mode = ''urban'', latitude = 28, longitude = 77\<rparr>] 4) = Running \<and>
   tick_no (run (configure \<lparr>interval_arg = None, cycles_arg = None, url_arg = ''http://localhost:8000''\<rparr>)
            \<lparr>generate = (\<lambda>n t. no_telemetry), submit = (\<lambda>t i r. True), stop_requested = (\<lambda>t. t = 3)\<rparr>
            [\<lparr>node_id = 1, context_mode = ''urban'', latitude = 28, longitude = 77\<rparr>] 4) = 3 \<and>
   slept_seconds (run (configure \<lparr>interval_arg = None, cycles_arg = None, url_arg = ''http://localhost:8000''\<rparr>)
            \<lparr>generate = (\<lambda>n t. no_telemetry), submit = (\<lambda>t i r. True), stop_requested = (\<lambda>t. t = 3)\<rparr>
            [\<lparr>node_id = 1, context_mode = ''urban'', latitude = 28, longitude = 77\<rparr>] 4) = 6 \<and>
   phase (run (configure \<lparr>interval_arg = None, cycles_arg = None, url_arg = ''http://localhost:8000''\<rparr>)
            \<lparr>generate = (\<lambda>n t. no_telemetry), submit = (\<lambda>t i r. True), stop_requested = (\<lambda>t. t = 3)\<rparr>
            [\<lparr>node_id = 1, context_mode = ''urban'', latitude = 28, longitude = 77\<rparr>] 5) = Stopped"
  using scheduler_defaults [of "''http://localhost:8000''"
      "\<lparr>generate = (\<lambda>n t. no_telemetry), submit = (\<lambda>t i r. True), stop_requested = (\<lambda>t. t = 3)\<rparr>"
      "[\<lparr>node_id = 1, context_mode = ''urban'', latitude = 28, longitude = 77\<rparr>]" 3]
  by simp

end
